theory Spec2Isabelle
  imports Main "HOL-Library.Word" "HOL-Library.AList"
begin

unbundle bit_operations_syntax

section \<open>Python values, exceptions and primitives\<close>

text \<open>
  The simulator is Python: integers are unbounded (\<open>int\<close>), a \<open>bytearray\<close> is a list of
  bytes, and every exception the code can raise is a value. A method that mutates its
  object returns an outcome: either it returns a value together with the state it left,
  or it raises, again together with the state it left (Python does not roll back).
\<close>

datatype error = TypeError | StructError | KeyError | IndexError | ValueError
  | AssertionError | AttributeError | ExecutionException

datatype ('a, 's) outcome = Returns 'a 's | Raises error 's

fun outcome_state :: "('a, 's) outcome \<Rightarrow> 's" where
  "outcome_state (Returns v s) = s"
| "outcome_state (Raises e s) = s"

fun raised :: "('a, 's) outcome \<Rightarrow> error option" where
  "raised (Returns v s) = None"
| "raised (Raises e s) = Some e"

fun obind :: "('a, 's) outcome \<Rightarrow> ('a \<Rightarrow> 's \<Rightarrow> ('b, 's) outcome) \<Rightarrow> ('b, 's) outcome" where
  "obind (Returns v s) f = f v s"
| "obind (Raises e s) f = Raises e s"

fun ebind :: "error + 'a \<Rightarrow> ('a \<Rightarrow> error + 'b) \<Rightarrow> error + 'b" where
  "ebind (Inl e) f = Inl e"
| "ebind (Inr v) f = f v"

type_synonym byte = "8 word"

text \<open>The right-hand side of an assignment, as far as the code distinguishes its type.\<close>

datatype pyval = PyInt int | PyBytes "byte list"

text \<open>\<open>a >> n\<close> and \<open>a << n\<close>: Python raises ValueError on a negative shift count.\<close>

text \<open>\<open>bool(n)\<close> of an integer.\<close>

definition py_bool :: "int \<Rightarrow> bool" where
  "py_bool n = (n \<noteq> 0)"

definition py_rshift :: "int \<Rightarrow> int \<Rightarrow> error + int" where
  "py_rshift a n = (if n < 0 then Inl ValueError else Inr (drop_bit (nat n) a))"

definition py_lshift :: "int \<Rightarrow> int \<Rightarrow> error + int" where
  "py_lshift a n = (if n < 0 then Inl ValueError else Inr (push_bit (nat n) a))"

text \<open>\<open>xs[i]\<close> on a list of length \<open>n\<close>: a negative index counts from the end.\<close>

definition py_index :: "nat \<Rightarrow> int \<Rightarrow> nat option" where
  "py_index n i =
     (if 0 \<le> i \<and> i < int n then Some (nat i)
      else if - int n \<le> i \<and> i < 0 then Some (nat (int n + i))
      else None)"

text \<open>A slice bound, clamped as Python clamps it.\<close>

definition py_bound :: "nat \<Rightarrow> int \<Rightarrow> nat" where
  "py_bound n i = (if i < 0 then nat (max (int n + i) 0) else min (nat i) n)"

definition py_slice :: "'a list \<Rightarrow> int \<Rightarrow> int \<Rightarrow> 'a list" where
  "py_slice xs lo hi = take (py_bound (length xs) hi - py_bound (length xs) lo)
                         (drop (py_bound (length xs) lo) xs)"

text \<open>
  \<open>b[lo:hi] = v\<close> on a bytearray: bytes and iterables of small ints replace the slice;
  an \<open>int\<close> on the right raises TypeError ("can assign only bytes, buffers, or iterables
  of ints in range(0, 256)").
\<close>

definition bytearray_setslice :: "byte list \<Rightarrow> int \<Rightarrow> int \<Rightarrow> pyval \<Rightarrow> error + byte list" where
  "bytearray_setslice b lo hi v =
     (case v of
        PyInt _ \<Rightarrow> Inl TypeError
      | PyBytes bs \<Rightarrow>
          Inr (take (py_bound (length b) lo) b @ bs
               @ drop (max (py_bound (length b) lo) (py_bound (length b) hi)) b))"

text \<open>\<open>struct.unpack("<I", m)[0]\<close>: exactly four bytes, little-endian, unsigned.\<close>

fun le_value :: "byte list \<Rightarrow> int" where
  "le_value [] = 0"
| "le_value (b # bs) = uint b + 256 * le_value bs"

definition struct_unpack_I :: "byte list \<Rightarrow> error + int" where
  "struct_unpack_I m = (if length m = 4 then Inr (le_value m) else Inl StructError)"

section \<open>Breakpoint handler\<close>

datatype bkpt_infos = InfoInt int | InfoStr string

datatype BkptInfo = BkptInfo (source: string) (mode: int) (infos: bkpt_infos)

record BreakPointHandler =
  breakpointTrigged :: bool
  breakpointInfo :: "BkptInfo option"


definition throw :: "BkptInfo \<Rightarrow> BreakPointHandler \<Rightarrow> BreakPointHandler" where
  "throw i b = b\<lparr>breakpointTrigged := True, breakpointInfo := Some i\<rparr>"

section \<open>Registers and flags\<close>

text \<open>
  Every register, flag and the memory hold a reference to the one handler of their
  simulator; the model passes that handler in and out of each method.
\<close>

record Register =
  r_id :: int
  r_val :: int
  r_altname :: "string option"
  r_history :: "int list"
  r_breakpoint :: int

definition Register_init :: "int \<Rightarrow> Register" where
  "Register_init n = \<lparr>r_id = n, r_val = 0, r_altname = None, r_history = [], r_breakpoint = 0\<rparr>"

definition Register_get :: "Register \<Rightarrow> bool \<Rightarrow> BreakPointHandler \<Rightarrow> int \<times> BreakPointHandler" where
  "Register_get r mayTriggerBkpt b =
     (r_val r,
      if mayTriggerBkpt \<and> r_breakpoint r AND 4 \<noteq> 0
      then throw (BkptInfo ''register'' 4 (InfoInt (r_id r))) b else b)"

definition Register_set :: "Register \<Rightarrow> int \<Rightarrow> bool \<Rightarrow> BreakPointHandler \<Rightarrow> Register \<times> BreakPointHandler" where
  "Register_set r v mayTriggerBkpt b =
     (let v' = v AND 0xFFFFFFFF
      in (r\<lparr>r_history := r_history r @ [v'], r_val := v'\<rparr>,
          if mayTriggerBkpt \<and> r_breakpoint r AND 2 \<noteq> 0
          then throw (BkptInfo ''register'' 2 (InfoInt (r_id r))) b else b))"

record Flag =
  f_name :: string
  f_val :: bool
  f_breakpoint :: int

definition Flag_init :: "string \<Rightarrow> Flag" where
  "Flag_init n = \<lparr>f_name = n, f_val = False, f_breakpoint = 0\<rparr>"

definition Flag_get :: "Flag \<Rightarrow> bool \<Rightarrow> BreakPointHandler \<Rightarrow> bool \<times> BreakPointHandler" where
  "Flag_get f mayTriggerBkpt b =
     (f_val f,
      if mayTriggerBkpt \<and> f_breakpoint f AND 4 \<noteq> 0
      then throw (BkptInfo ''flag'' 4 (InfoStr (f_name f))) b else b)"

text \<open>\<open>__bool__\<close> is \<open>get()\<close>: testing a flag for truth may signal its read breakpoint.\<close>

definition Flag_bool :: "Flag \<Rightarrow> BreakPointHandler \<Rightarrow> bool \<times> BreakPointHandler" where
  "Flag_bool f b = Flag_get f True b"

text \<open>\<open>__eq__\<close> compares the stored values and signals nothing.\<close>

definition Flag_eq :: "Flag \<Rightarrow> Flag \<Rightarrow> bool" where
  "Flag_eq f g = (f_val f = f_val g)"

definition Flag_set :: "Flag \<Rightarrow> bool \<Rightarrow> bool \<Rightarrow> BreakPointHandler \<Rightarrow> Flag \<times> BreakPointHandler" where
  "Flag_set f v mayTriggerBkpt b =
     (f\<lparr>f_val := v\<rparr>,
      if mayTriggerBkpt \<and> f_breakpoint f AND 2 \<noteq> 0
      then throw (BkptInfo ''flag'' 2 (InfoStr (f_name f))) b else b)"

section \<open>Memory\<close>

text \<open>
  The three dictionaries of \<open>Memory\<close> are keyed by section name; they are association
  lists in insertion order, since \<open>_getRelativeAddr\<close> and \<open>serialize\<close> iterate over
  them. \<open>breakpoints\<close> is a \<open>defaultdict(int)\<close>: a total function, 0 where nothing was
  stored. The fields \<open>size\<close>, \<open>initval\<close> and \<open>initdata\<close> are written by the constructor
  and read nowhere, and are left out.
\<close>

record Memory =
  startAddr :: "(string \<times> int) list"
  endAddr :: "(string \<times> int) list"
  maxAddr :: int
  data :: "(string \<times> byte list) list"
  m_history :: "(string \<times> int \<times> int \<times> int) list"
  breakpoints :: "int \<Rightarrow> int"

text \<open>
  The constructor: \<open>max\<close> of no end address raises ValueError, the assertion compares
  the number of keys only, and a section named in \<open>__MEMINFOSTART\<close> with no content
  raises KeyError.
\<close>

fun init_data :: "(string \<times> byte list) list \<Rightarrow> string list \<Rightarrow> error + (string \<times> byte list) list" where
  "init_data content [] = Inr []"
| "init_data content (k # ks) =
     (case map_of content k of
        None \<Rightarrow> Inl KeyError
      | Some bs \<Rightarrow> ebind (init_data content ks) (\<lambda>rest. Inr ((k, bs) # rest)))"

definition Memory_init ::
  "(string \<times> int) list \<Rightarrow> (string \<times> int) list \<Rightarrow> (string \<times> byte list) list \<Rightarrow> error + Memory" where
  "Memory_init starts ends content =
     (if ends = [] then Inl ValueError
      else if length starts \<noteq> length ends then Inl AssertionError
      else ebind (init_data content (map fst starts)) (\<lambda>d.
        Inr \<lparr>startAddr = starts, endAddr = ends, maxAddr = Max (set (map snd ends)),
             data = d, m_history = [], breakpoints = (\<lambda>_. 0)\<rparr>))"

text \<open>
  \<open>_getRelativeAddr\<close>. The chained comparison \<open>start <= addr < end - (size-1)\<close> looks
  the end address up only when the first comparison holds.
\<close>

fun find_section :: "(string \<times> int) list \<Rightarrow> (string \<times> int) list \<Rightarrow> int \<Rightarrow> int \<Rightarrow> error + (string \<times> int) option" where
  "find_section [] ends addr sz = Inr None"
| "find_section ((sec, start) # rest) ends addr sz =
     (if start \<le> addr then
        (case map_of ends sec of
           None \<Rightarrow> Inl KeyError
         | Some e \<Rightarrow>
             if addr < e - (sz - 1) then Inr (Some (sec, addr - start))
             else find_section rest ends addr sz)
      else find_section rest ends addr sz)"

definition getRelativeAddr :: "Memory \<Rightarrow> int \<Rightarrow> int \<Rightarrow> error + (string \<times> int) option" where
  "getRelativeAddr m addr sz =
     (if addr < 0 \<or> addr > maxAddr m - (sz - 1) then Inr None
      else find_section (startAddr m) (endAddr m) addr sz)"

text \<open>The loops over \<open>range(size)\<close> that signal the breakpoints of each byte touched.\<close>

definition get_bkpt_step :: "Memory \<Rightarrow> int \<Rightarrow> bool \<Rightarrow> nat \<Rightarrow> BreakPointHandler \<Rightarrow> BreakPointHandler" where
  "get_bkpt_step m addr execMode offset b =
     (let b1 = (if execMode \<and> breakpoints m (addr + int offset) AND 1 \<noteq> 0
                then throw (BkptInfo ''memory'' 1 (InfoInt (addr + int offset))) b else b)
      in if breakpoints m (addr + int offset) AND 4 \<noteq> 0
         then throw (BkptInfo ''memory'' 4 (InfoInt (addr + int offset))) b1 else b1)"

definition set_bkpt_step :: "Memory \<Rightarrow> int \<Rightarrow> nat \<Rightarrow> BreakPointHandler \<Rightarrow> BreakPointHandler" where
  "set_bkpt_step m addr offset b =
     (if breakpoints m (addr + int offset) AND 2 \<noteq> 0
      then throw (BkptInfo ''memory'' 2 (InfoInt (addr + int offset))) b else b)"

text \<open>\<open>Memory.get\<close>: the memory itself is not changed, only the handler.\<close>

definition Memory_get ::
  "Memory \<Rightarrow> int \<Rightarrow> int \<Rightarrow> bool \<Rightarrow> BreakPointHandler \<Rightarrow> (byte list option, BreakPointHandler) outcome" where
  "Memory_get m addr sz execMode b =
     (case getRelativeAddr m addr sz of
        Inl e \<Rightarrow> Raises e b
      | Inr None \<Rightarrow> Returns None (throw (BkptInfo ''memory'' 8 (InfoInt addr)) b)
      | Inr (Some (sec, offset)) \<Rightarrow>
          (let b' = fold (get_bkpt_step m addr execMode) [0..<nat sz] b
           in case map_of (data m) sec of
                None \<Rightarrow> Raises KeyError b'
              | Some d \<Rightarrow> Returns (Some (py_slice d offset (offset + sz))) b'))"

text \<open>
  \<open>Memory.set\<close>: the write log is appended first, then the slice of the section is
  assigned the masked integer itself.
\<close>

definition Memory_set ::
  "Memory \<Rightarrow> int \<Rightarrow> int \<Rightarrow> int \<Rightarrow> BreakPointHandler \<Rightarrow> (unit, Memory \<times> BreakPointHandler) outcome" where
  "Memory_set m addr v sz b =
     (case getRelativeAddr m addr sz of
        Inl e \<Rightarrow> Raises e (m, b)
      | Inr None \<Rightarrow> Returns () (m, throw (BkptInfo ''memory'' 8 (InfoInt addr)) b)
      | Inr (Some (sec, offset)) \<Rightarrow>
          (let b' = fold (set_bkpt_step m addr) [0..<nat sz] b;
               v' = v AND 0xFFFFFFFF;
               m' = m\<lparr>m_history := m_history m @ [(sec, offset, sz, v')]\<rparr>
           in case map_of (data m) sec of
                None \<Rightarrow> Raises KeyError (m', b')
              | Some d \<Rightarrow>
                  (case bytearray_setslice d offset (offset + sz) (PyInt v') of
                     Inl e \<Rightarrow> Raises e (m', b')
                   | Inr d' \<Rightarrow> Returns () (m'\<lparr>data := AList.update sec d' (data m')\<rparr>, b'))))"

text \<open>
  \<open>Memory.serialize\<close>: the sections sorted by start address (\<open>sorted\<close> is stable), each
  padded with zero bytes up to its start and up to its end; a negative padding size gives
  the empty string.
\<close>

fun serialize_loop :: "Memory \<Rightarrow> (string \<times> int) list \<Rightarrow> byte list \<Rightarrow> error + byte list" where
  "serialize_loop m [] ret_val = Inr ret_val"
| "serialize_loop m ((sec, start) # rest) ret_val =
     (let r1 = ret_val @ replicate (nat (start - int (length ret_val))) 0
      in case map_of (data m) sec of
           None \<Rightarrow> Inl KeyError
         | Some d \<Rightarrow>
             (case map_of (endAddr m) sec of
                None \<Rightarrow> Inl KeyError
              | Some e \<Rightarrow>
                  serialize_loop m rest
                    (r1 @ d @ replicate (nat (e - start - int (length d))) 0)))"

definition serialize :: "Memory \<Rightarrow> error + byte list" where
  "serialize m = serialize_loop m (sort_key snd (startAddr m)) []"

definition setBreakpoint :: "Memory \<Rightarrow> int \<Rightarrow> int \<Rightarrow> Memory" where
  "setBreakpoint m addr modeOctal = m\<lparr>breakpoints := (breakpoints m)(addr := modeOctal)\<rparr>"

definition removeBreakpoint :: "Memory \<Rightarrow> int \<Rightarrow> Memory" where
  "removeBreakpoint m addr = m\<lparr>breakpoints := (breakpoints m)(addr := 0)\<rparr>"

section \<open>Decoded instructions\<close>

text \<open>
  \<open>BytecodeToInstrInfos\<close> lives in the module \<open>instruction\<close>, outside these sources; the
  simulator takes its result \<open>(t, regs, cond, misc)\<close> as given. \<open>cond\<close> is the mnemonic
  string. \<open>misc\<close> is a dictionary whose keys depend on the instruction type \<open>t\<close>, so the
  type and its dictionary are one constructor here; \<open>other\<close> stands for a type that
  \<open>execInstr\<close> does not dispatch on. The list \<open>regs\<close> is not read by \<open>execInstr\<close>.
  A shift description is the triple (kind, \<open>'reg'\<close> or not, register number or amount).
\<close>

type_synonym shiftInfo = "string \<times> string \<times> int"

datatype offset_field = OffsetInt int | OffsetReg int shiftInfo

record BranchMisc =
  b_L :: bool
  b_mode :: string
  b_offset :: int

record MemMisc =
  m_base :: int
  m_imm :: bool
  m_sign :: int
  m_offset :: offset_field
  m_pre :: bool
  m_mode :: string
  m_byte :: bool
  m_rd :: int
  m_writeback :: bool

record DataMisc =
  d_rn :: int
  d_rd :: int
  d_imm :: bool
  d_op2 :: "int \<times> shiftInfo"
  d_opcode :: string
  d_setflags :: bool

datatype InstrInfos = branch BranchMisc | memop MemMisc | dataop DataMisc | other

type_synonym decoded = "string \<times> InstrInfos"

section \<open>Simulator\<close>

datatype SimState = sim_undefined | uninitialized | ready | started | stopped | finished

text \<open>
  The dictionary \<open>flags\<close> has the four keys Z, V, C, N for its whole life and is four
  fields. \<open>countCycle\<close> does not exist before the first \<open>reset()\<close>.
\<close>

record Simulator =
  state :: SimState
  breakpointHandler :: BreakPointHandler
  mem :: Memory
  regs :: "Register list"
  stepMode :: "string option"
  stepCondition :: int
  flagZ :: Flag
  flagV :: Flag
  flagC :: Flag
  flagN :: Flag
  fetchedInstr :: "byte list option"
  countCycle :: "int option"

definition init_regs :: "Register list" where
  "init_regs =
     (map (\<lambda>i. Register_init (int i)) [0..<16])
       [13 := (Register_init 13)\<lparr>r_altname := Some ''SP''\<rparr>,
        14 := (Register_init 14)\<lparr>r_altname := Some ''LR''\<rparr>,
        15 := (Register_init 15)\<lparr>r_altname := Some ''PC''\<rparr>]"

definition Simulator_init :: "Memory \<Rightarrow> Simulator" where
  "Simulator_init m =
     \<lparr>state = uninitialized,
      breakpointHandler = \<lparr>breakpointTrigged = False, breakpointInfo = None\<rparr>,
      mem = m, regs = init_regs, stepMode = None, stepCondition = 0,
      flagZ = Flag_init ''Z'', flagV = Flag_init ''V'',
      flagC = Flag_init ''C'', flagN = Flag_init ''N'',
      fetchedInstr = None, countCycle = None\<rparr>"

subsection \<open>Access to the parts of the state\<close>

definition reg_get :: "int \<Rightarrow> Simulator \<Rightarrow> (int, Simulator) outcome" where
  "reg_get i s =
     (case py_index (length (regs s)) i of
        None \<Rightarrow> Raises IndexError s
      | Some k \<Rightarrow>
          (case Register_get (regs s ! k) True (breakpointHandler s) of
             (v, b) \<Rightarrow> Returns v (s\<lparr>breakpointHandler := b\<rparr>)))"

definition reg_set :: "int \<Rightarrow> int \<Rightarrow> Simulator \<Rightarrow> (unit, Simulator) outcome" where
  "reg_set i v s =
     (case py_index (length (regs s)) i of
        None \<Rightarrow> Raises IndexError s
      | Some k \<Rightarrow>
          (case Register_set (regs s ! k) v True (breakpointHandler s) of
             (r, b) \<Rightarrow> Returns () (s\<lparr>regs := (regs s)[k := r], breakpointHandler := b\<rparr>)))"

definition mem_get :: "int \<Rightarrow> int \<Rightarrow> bool \<Rightarrow> Simulator \<Rightarrow> (byte list option, Simulator) outcome" where
  "mem_get addr sz execMode s =
     (case Memory_get (mem s) addr sz execMode (breakpointHandler s) of
        Returns r b \<Rightarrow> Returns r (s\<lparr>breakpointHandler := b\<rparr>)
      | Raises e b \<Rightarrow> Raises e (s\<lparr>breakpointHandler := b\<rparr>))"

definition mem_set :: "int \<Rightarrow> int \<Rightarrow> int \<Rightarrow> Simulator \<Rightarrow> (unit, Simulator) outcome" where
  "mem_set addr v sz s =
     (case Memory_set (mem s) addr v sz (breakpointHandler s) of
        Returns r (m, b) \<Rightarrow> Returns r (s\<lparr>mem := m, breakpointHandler := b\<rparr>)
      | Raises e (m, b) \<Rightarrow> Raises e (s\<lparr>mem := m, breakpointHandler := b\<rparr>))"

subsection \<open>Step mode\<close>

definition isStepDone :: "Simulator \<Rightarrow> bool \<times> Simulator" where
  "isStepDone s =
     (if stepMode s = Some ''forward'' \<and> stepCondition s \<noteq> 2 then (True, s)
      else
        (let s1 = (if stepMode s = Some ''forward''
                   then s\<lparr>stepMode := Some ''out'', stepCondition := 1\<rparr> else s)
         in if stepMode s1 = Some ''out'' then (stepCondition s1 = 0, s1) else (True, s1)))"

definition setStepCondition :: "string \<Rightarrow> Simulator \<Rightarrow> (unit, Simulator) outcome" where
  "setStepCondition m s =
     (if m = ''out'' \<or> m = ''forward''
      then Returns () (s\<lparr>stepMode := Some m, stepCondition := 1\<rparr>)
      else Raises AssertionError s)"

subsection \<open>Barrel shifter\<close>

text \<open>
  \<open>_shiftVal\<close>, the part after the shift amount is known. In the RRX branch the code
  calls \<open>int()\<close> on the \<open>Flag\<close> object, which has neither \<open>__int__\<close> nor \<open>__index__\<close>:
  TypeError.
\<close>

definition shift_core :: "string \<Rightarrow> int \<Rightarrow> int \<Rightarrow> error + (int \<times> int)" where
  "shift_core kind shiftamount v =
     (if kind = ''LSL'' then
        ebind (py_rshift v (32 - shiftamount)) (\<lambda>c.
        ebind (py_lshift v shiftamount) (\<lambda>w.
        Inr (c AND 1, w AND 0xFFFFFFFF)))
      else if kind = ''LSR'' then
        ebind (py_rshift v (shiftamount - 1)) (\<lambda>c.
        ebind (py_rshift v shiftamount) (\<lambda>w.
        Inr (c AND 1, w AND 0xFFFFFFFF)))
      else if kind = ''ASR'' then
        ebind (py_rshift v (shiftamount - 1)) (\<lambda>c.
        ebind (py_rshift v 31) (\<lambda>firstBit.
        ebind (py_rshift v shiftamount) (\<lambda>w.
        ebind (py_lshift (2 ^ nat (shiftamount + 1)) (32 - shiftamount)) (\<lambda>top.
        Inr (c AND 1, (w AND 0xFFFFFFFF) OR top)))))
      else if kind = ''ROR'' then
        (if shiftamount = 0 then Inl TypeError
         else
           ebind (py_rshift v (shiftamount - 1)) (\<lambda>c.
           ebind (py_rshift (v AND (2 ^ 32 - 1)) (shiftamount mod 32)) (\<lambda>lo.
           ebind (py_lshift v (32 - shiftamount mod 32)) (\<lambda>hi.
           Inr (c AND 1, lo OR (hi AND (2 ^ 32 - 1)))))))
      else Inr (0, v))"

definition shiftVal :: "int \<Rightarrow> shiftInfo \<Rightarrow> Simulator \<Rightarrow> (int \<times> int, Simulator) outcome" where
  "shiftVal v shiftinfo s =
     (case shiftinfo of (kind, how, arg) \<Rightarrow>
        obind (if how = ''reg''
               then obind (reg_get arg s) (\<lambda>r s'. Returns (r AND 0xF) s')
               else Returns arg s)
          (\<lambda>shiftamount s'.
             case shift_core kind shiftamount v of
               Inl e \<Rightarrow> Raises e s'
             | Inr r \<Rightarrow> Returns r s'))"

subsection \<open>Condition check\<close>

text \<open>
  The test at the head of \<open>execInstr\<close> is true when the condition is NOT met. It is a
  chain \<open>cond == "EQ" and not Z or cond == "NE" and Z or ...\<close>; the mnemonics differ, so
  at most one clause gets past its string comparison, and the chain is a cascade of
  \<open>if\<close>s on \<open>cond\<close>. A flag tested for truth signals its read breakpoint; where Python
  tests the same flag object again on the way out of the chain, it signals the same
  event again, which changes nothing. \<open>V == N\<close> goes through \<open>__eq__\<close>. \<open>and\<close> and
  \<open>or\<close> read their right operand only when the left one did not decide.
\<close>

definition conditionNotMet :: "string \<Rightarrow> Simulator \<Rightarrow> bool \<times> BreakPointHandler" where
  "conditionNotMet cond s =
     (let b = breakpointHandler s in
      if cond = ''EQ'' then (case Flag_bool (flagZ s) b of (z, b1) \<Rightarrow> (\<not> z, b1))
      else if cond = ''NE'' then Flag_bool (flagZ s) b
      else if cond = ''CS'' then (case Flag_bool (flagC s) b of (c, b1) \<Rightarrow> (\<not> c, b1))
      else if cond = ''CC'' then Flag_bool (flagC s) b
      else if cond = ''MI'' then (case Flag_bool (flagN s) b of (n, b1) \<Rightarrow> (\<not> n, b1))
      else if cond = ''PI'' then Flag_bool (flagN s) b
      else if cond = ''VS'' then (case Flag_bool (flagV s) b of (v, b1) \<Rightarrow> (\<not> v, b1))
      else if cond = ''VC'' then Flag_bool (flagV s) b
      else if cond = ''HI'' then
        (case Flag_bool (flagC s) b of (c, b1) \<Rightarrow>
           if \<not> c then (True, b1) else Flag_bool (flagZ s) b1)
      else if cond = ''LS'' then
        (case Flag_bool (flagC s) b of (c, b1) \<Rightarrow>
           if \<not> c then (False, b1)
           else (case Flag_bool (flagZ s) b1 of (z, b2) \<Rightarrow> (\<not> z, b2)))
      else if cond = ''GE'' then (\<not> Flag_eq (flagV s) (flagN s), b)
      else if cond = ''LT'' then (Flag_eq (flagV s) (flagN s), b)
      else if cond = ''GT'' then
        (case Flag_bool (flagZ s) b of (z, b1) \<Rightarrow>
           if z then (True, b1) else (\<not> Flag_eq (flagV s) (flagN s), b1))
      else if cond = ''LE'' then
        (case Flag_bool (flagZ s) b of (z, b1) \<Rightarrow>
           if z then (False, b1) else (Flag_eq (flagV s) (flagN s), b1))
      else (False, b))"

subsection \<open>Branch\<close>

definition exec_branch :: "BranchMisc \<Rightarrow> Simulator \<Rightarrow> (unit, Simulator) outcome" where
  "exec_branch misc s =
     obind (if b_L misc
            then obind (reg_get 15 s) (\<lambda>pc s1.
                 obind (reg_set 14 (pc + 4) s1) (\<lambda>_ s2.
                 Returns () (s2\<lparr>stepCondition := stepCondition s2 + 1\<rparr>)))
            else Returns () s)
       (\<lambda>_ s3.
          if b_mode misc = ''imm''
          then obind (reg_get 15 s3) (\<lambda>pc s4. reg_set 15 (pc + b_offset misc - 4) s4)
          else obind (reg_get (b_offset misc) s3) (\<lambda>v s4.
               obind (reg_set 15 (v - 4) s4) (\<lambda>_ s5.
               Returns () (s5\<lparr>stepCondition := stepCondition s5 - 1\<rparr>))))"

subsection \<open>Word and byte transfers\<close>

text \<open>
  \<open>misc['offset']\<close> is an integer when \<open>misc['imm']\<close> holds and a pair (register, shift)
  otherwise; used the other way round, Python raises TypeError. With a register
  offset the code unpacks \<open>sval, _ = self._shiftVal(...)\<close>, and \<open>_shiftVal\<close> returns
  \<open>(carryOut, val)\<close>: the offset added to the base is the first component, the carry
  of the shifter, and the shifted value is dropped. The boolean passed on says whether
  the code is still running, or left through \<open>return\<close> after a read from an illegal
  address.
\<close>

definition memop_addr :: "MemMisc \<Rightarrow> int \<Rightarrow> Simulator \<Rightarrow> (int, Simulator) outcome" where
  "memop_addr misc baseval s =
     (if m_imm misc then
        (case m_offset misc of
           OffsetInt k \<Rightarrow> Returns (baseval + m_sign misc * k) s
         | OffsetReg r si \<Rightarrow> Raises TypeError s)
      else
        (case m_offset misc of
           OffsetInt k \<Rightarrow> Raises TypeError s
         | OffsetReg r si \<Rightarrow>
             obind (reg_get r s) (\<lambda>rv s1.
             obind (shiftVal rv si s1) (\<lambda>cv s2.
             Returns (baseval + m_sign misc * fst cv) s2))))"

definition exec_memop :: "MemMisc \<Rightarrow> Simulator \<Rightarrow> (unit, Simulator) outcome" where
  "exec_memop misc s =
     obind (reg_get (m_base misc) s) (\<lambda>baseval s1.
     obind (memop_addr misc baseval s1) (\<lambda>addr s2.
       (let realAddr = (if m_pre misc then addr else baseval);
            sz = (if m_byte misc then 1 else 4)
        in obind
             (if m_mode misc = ''LDR'' then
                obind (mem_get realAddr sz False s2) (\<lambda>m s3.
                  case m of
                    None \<Rightarrow> Returns False s3
                  | Some bs \<Rightarrow>
                      (case struct_unpack_I bs of
                         Inl e \<Rightarrow> Raises e s3
                       | Inr res \<Rightarrow>
                           obind (reg_set (m_rd misc) res s3) (\<lambda>_ s4. Returns True s4)))
              else
                obind (reg_get (m_rd misc) s2) (\<lambda>v s3.
                obind (mem_set realAddr v sz s3) (\<lambda>_ s4. Returns True s4)))
             (\<lambda>running s5.
                if running \<and> m_writeback misc then reg_set (m_base misc) addr s5
                else Returns () s5))))"

subsection \<open>Data processing\<close>

text \<open>
  \<open>workingFlags\<close> starts empty; its keys enter in the order C, V, Z, N whatever the
  opcode, and that is the order of the final loop over it.
\<close>

record workingFlags =
  wC :: "bool option"
  wV :: "bool option"
  wZ :: "bool option"
  wN :: "bool option"

definition dataop_op2 :: "DataMisc \<Rightarrow> Simulator \<Rightarrow> (bool option \<times> int, Simulator) outcome" where
  "dataop_op2 misc s =
     (case d_op2 misc of (x, si) \<Rightarrow>
        if d_imm misc then
          (if snd (snd si) \<noteq> 0
           then obind (shiftVal x si s) (\<lambda>cv s1. Returns (None, snd cv) s1)
           else Returns (None, x) s)
        else
          obind (reg_get x s) (\<lambda>rv s1.
          obind (shiftVal rv si s1) (\<lambda>cv s2.
          Returns (Some (fst cv \<noteq> 0), snd cv) s2)))"

definition flagC_get :: "Simulator \<Rightarrow> (int, Simulator) outcome" where
  "flagC_get s =
     (case Flag_get (flagC s) True (breakpointHandler s) of
        (c, b) \<Rightarrow> Returns (if c then 1 else 0) (s\<lparr>breakpointHandler := b\<rparr>))"

definition add_flags :: "int \<Rightarrow> int \<Rightarrow> int \<Rightarrow> bool option \<times> bool option" where
  "add_flags op1 op2 res =
     (Some (res AND push_bit 32 1 \<noteq> 0),
      if (op1 AND 0x80000000) XOR (op2 AND 0x80000000) = 0
      then Some (\<not> ((op1 AND 0x80000000) XOR (res AND 0x80000000) \<noteq> 0))
      else None)"

text \<open>The opcode chain: the result, and what it leaves in \<open>workingFlags\<close> for C and V.\<close>

definition dataop_alu ::
  "string \<Rightarrow> int \<Rightarrow> int \<Rightarrow> bool option \<Rightarrow> Simulator
     \<Rightarrow> (int \<times> bool option \<times> bool option, Simulator) outcome" where
  "dataop_alu opcode op1 op2 c0 s =
     (if opcode = ''AND'' \<or> opcode = ''TST'' then Returns (op1 AND op2, c0, None) s
      else if opcode = ''EOR'' \<or> opcode = ''TEQ'' then Returns (op1 XOR op2, c0, None) s
      else if opcode = ''SUB'' \<or> opcode = ''CMP'' then Returns (op1 - op2, c0, None) s
      else if opcode = ''RSB'' then Returns (op2 - op1, c0, None) s
      else if opcode = ''ADD'' \<or> opcode = ''CMN'' then
        Returns (op1 + op2, add_flags op1 op2 (op1 + op2)) s
      else if opcode = ''ADC'' then
        obind (flagC_get s) (\<lambda>c s1.
          Returns (op1 + op2 + c, add_flags op1 op2 (op1 + op2 + c)) s1)
      else if opcode = ''SBC'' then
        obind (flagC_get s) (\<lambda>c s1. Returns (op1 - op2 + c - 1, c0, None) s1)
      else if opcode = ''RSC'' then
        obind (flagC_get s) (\<lambda>c s1. Returns (op2 - op1 + c - 1, c0, None) s1)
      else if opcode = ''ORR'' then Returns (op1 OR op2, c0, None) s
      else if opcode = ''MOV'' then Returns (op2, c0, None) s
      else if opcode = ''BIC'' then Returns (op1 AND NOT op2, c0, None) s
      else if opcode = ''MVN'' then Returns (NOT op2, c0, None) s
      else Raises AssertionError s)"

definition set_one_flag ::
  "(Simulator \<Rightarrow> Flag) \<Rightarrow> (Flag \<Rightarrow> Simulator \<Rightarrow> Simulator) \<Rightarrow> bool option \<Rightarrow> Simulator \<Rightarrow> Simulator" where
  "set_one_flag sel put w s =
     (case w of
        None \<Rightarrow> s
      | Some v \<Rightarrow>
          (case Flag_set (sel s) v True (breakpointHandler s) of
             (f, b) \<Rightarrow> (put f s)\<lparr>breakpointHandler := b\<rparr>))"

definition set_flags :: "workingFlags \<Rightarrow> Simulator \<Rightarrow> Simulator" where
  "set_flags w s =
     set_one_flag flagN (\<lambda>f s. s\<lparr>flagN := f\<rparr>) (wN w)
       (set_one_flag flagZ (\<lambda>f s. s\<lparr>flagZ := f\<rparr>) (wZ w)
         (set_one_flag flagV (\<lambda>f s. s\<lparr>flagV := f\<rparr>) (wV w)
           (set_one_flag flagC (\<lambda>f s. s\<lparr>flagC := f\<rparr>) (wC w) s)))"

definition exec_dataop :: "DataMisc \<Rightarrow> Simulator \<Rightarrow> (unit, Simulator) outcome" where
  "exec_dataop misc s =
     obind (reg_get (d_rn misc) s) (\<lambda>op1 s1.
     obind (dataop_op2 misc s1) (\<lambda>cop2 s2.
     obind (dataop_alu (d_opcode misc) op1 (snd cop2) (fst cop2) s2) (\<lambda>r s3.
       (let res = fst r;
            w = \<lparr>wC = fst (snd r), wV = snd (snd r),
                 wZ = (if res = 0 then Some True else None),
                 wN = (if res AND 0x80000000 \<noteq> 0 then Some True else None)\<rparr>;
            s4 = (if d_setflags misc then set_flags w s3 else s3)
        in if d_opcode misc \<notin> {''TST'', ''TEQ'', ''CMP'', ''CMN''}
           then reg_set (d_rd misc) res s4
           else Returns () s4))))"

subsection \<open>One instruction, one cycle\<close>

definition exec_body :: "InstrInfos \<Rightarrow> Simulator \<Rightarrow> (unit, Simulator) outcome" where
  "exec_body t s =
     (case t of
        branch misc \<Rightarrow> exec_branch misc s
      | memop misc \<Rightarrow> exec_memop misc s
      | dataop misc \<Rightarrow> exec_dataop misc s
      | other \<Rightarrow> Returns () s)"

text \<open>
  \<open>execInstr\<close>, with the decoder \<open>BytecodeToInstrInfos\<close> as a parameter: it maps the
  fetched bytes (or \<open>None\<close>) to the decoded instruction, or raises.
\<close>

definition execInstr ::
  "(byte list option \<Rightarrow> error + decoded) \<Rightarrow> Simulator \<Rightarrow> (unit, Simulator) outcome" where
  "execInstr BytecodeToInstrInfos s =
     (case BytecodeToInstrInfos (fetchedInstr s) of
        Inl e \<Rightarrow> Raises e s
      | Inr (cond, t) \<Rightarrow>
          (case conditionNotMet cond s of
             (notMet, b) \<Rightarrow>
               if notMet then Returns () (s\<lparr>breakpointHandler := b\<rparr>)
               else exec_body t (s\<lparr>breakpointHandler := b\<rparr>)))"


text \<open>\<open>reset\<close>: \<open>bytes(None)\<close> raises TypeError when address 0 is not a legal address.\<close>

definition reset :: "Simulator \<Rightarrow> (unit, Simulator) outcome" where
  "reset s =
     obind (reg_set 15 0 (s\<lparr>state := ready, countCycle := Some 0\<rparr>)) (\<lambda>_ s1.
     obind (reg_get 15 s1) (\<lambda>pc s2.
     obind (mem_get pc 4 True s2) (\<lambda>m s3.
       case m of
         None \<Rightarrow> Raises TypeError s3
       | Some bs \<Rightarrow> Returns () (s3\<lparr>fetchedInstr := Some bs\<rparr>))))"

section \<open>Decoder of the half-word and signed transfers\<close>

text \<open>
  \<open>HalfSignedMemOp.decode\<close> (simulatorOps/halfSignedMemOp.py). The attributes
  \<open>offsetImm\<close> and \<open>offsetReg\<close> exist only on the branch that assigns them. In
  \<open>instrInt & 0xF + ((instrInt >> 4) & 0xF0)\<close> Python's \<open>+\<close> binds tighter than \<open>&\<close>.
  \<open>_decodeCondition\<close> is inherited from \<open>AbstractOp\<close>, outside these sources: it is a
  parameter giving the condition mnemonic of a word, or raising.
\<close>

record HalfSignedMemOp =
  h_condition :: string
  h_imm :: bool
  h_pre :: bool
  h_sign :: int
  h_byte :: bool
  h_signed :: bool
  h_writeback :: bool
  h_mode :: string
  h_basereg :: int
  h_rd :: int
  h_offsetImm :: "int option"
  h_offsetReg :: "int option"

text \<open>
  Modelled from the spec: \<open>utils.checkMask\<close> is not part of these sources. The spec fixes
  the encoding of this class by the bits 7 and 4 (set) and the class selectors 27..25
  (clear); \<open>checkMask w ones zeros\<close> holds when every bit of \<open>ones\<close> is set in \<open>w\<close> and
  every bit of \<open>zeros\<close> is clear.
\<close>

definition checkMask :: "int \<Rightarrow> nat list \<Rightarrow> nat list \<Rightarrow> bool" where
  "checkMask w ones zeros = (list_all (\<lambda>i. bit w i) ones \<and> list_all (\<lambda>i. \<not> bit w i) zeros)"

definition decode :: "(int \<Rightarrow> error + string) \<Rightarrow> int \<Rightarrow> error + HalfSignedMemOp" where
  "decode decodeCondition instrInt =
     (if \<not> checkMask instrInt [7, 4] [27, 26, 25] then Inl ExecutionException
      else ebind (decodeCondition instrInt) (\<lambda>c.
        (let imm = py_bool (instrInt AND push_bit 22 1);
             pre = py_bool (instrInt AND push_bit 24 1)
         in Inr \<lparr>h_condition = c,
                 h_imm = imm,
                 h_pre = pre,
                 h_sign = (if py_bool (instrInt AND push_bit 23 1) then 1 else - 1),
                 h_byte = (\<not> py_bool (instrInt AND push_bit 5 1)),
                 h_signed = py_bool (instrInt AND push_bit 6 1),
                 h_writeback = (py_bool (instrInt AND push_bit 21 1) \<or> \<not> pre),
                 h_mode = (if py_bool (instrInt AND push_bit 20 1) then ''LDR'' else ''STR''),
                 h_basereg = drop_bit 16 instrInt AND 0xF,
                 h_rd = drop_bit 12 instrInt AND 0xF,
                 h_offsetImm =
                   (if imm then Some (instrInt AND (0xF + (drop_bit 4 instrInt AND 0xF0)))
                    else None),
                 h_offsetReg = (if imm then None else Some (instrInt AND 0xF))\<rparr>)))"

section \<open>What the specification says, for comparison\<close>

text \<open>
  The truth table of the condition codes as the specification gives it, over the values
  of Z, N, C and V: the standard ARM semantics, AL always true, NV always false.
\<close>

definition arm_condition :: "string \<Rightarrow> bool \<Rightarrow> bool \<Rightarrow> bool \<Rightarrow> bool \<Rightarrow> bool" where
  "arm_condition cond Z N C V =
     (if cond = ''EQ'' then Z
      else if cond = ''NE'' then \<not> Z
      else if cond = ''CS'' then C
      else if cond = ''CC'' then \<not> C
      else if cond = ''MI'' then N
      else if cond = ''PL'' then \<not> N
      else if cond = ''VS'' then V
      else if cond = ''VC'' then \<not> V
      else if cond = ''HI'' then C \<and> \<not> Z
      else if cond = ''LS'' then \<not> C \<or> Z
      else if cond = ''GE'' then N = V
      else if cond = ''LT'' then N \<noteq> V
      else if cond = ''GT'' then \<not> Z \<and> N = V
      else if cond = ''LE'' then Z \<or> N \<noteq> V
      else if cond = ''AL'' then True
      else False)"

text \<open>The low \<open>n\<close> bytes of an integer, least significant first.\<close>

fun le_bytes :: "nat \<Rightarrow> int \<Rightarrow> byte list" where
  "le_bytes 0 v = []"
| "le_bytes (Suc n) v = word_of_int v # le_bytes n (drop_bit 8 v)"

text \<open>
  The invariants of the data model, as far as the memory goes: the three dictionaries
  have the same section names, every section starts at a non-negative address and owns
  exactly \<open>end - start\<close> bytes, two different sections do not overlap, and \<open>maxAddr\<close> is
  the largest end address.
\<close>

definition section_ok :: "Memory \<Rightarrow> string \<times> int \<Rightarrow> bool" where
  "section_ok m p =
     (case (map_of (endAddr m) (fst p), map_of (data m) (fst p)) of
        (Some e, Some d) \<Rightarrow> 0 \<le> snd p \<and> snd p \<le> e \<and> int (length d) = e - snd p
      | _ \<Rightarrow> False)"

definition section_end :: "Memory \<Rightarrow> string \<Rightarrow> int" where
  "section_end m sec = (case map_of (endAddr m) sec of Some e \<Rightarrow> e | None \<Rightarrow> 0)"

definition section_data :: "Memory \<Rightarrow> string \<Rightarrow> byte list" where
  "section_data m sec = (case map_of (data m) sec of Some d \<Rightarrow> d | None \<Rightarrow> [])"

definition disjoint_sections :: "Memory \<Rightarrow> bool" where
  "disjoint_sections m =
     (\<forall>p \<in> set (startAddr m). \<forall>q \<in> set (startAddr m).
        fst p \<noteq> fst q \<longrightarrow>
          section_end m (fst p) \<le> snd q \<or> section_end m (fst q) \<le> snd p)"

definition mem_wf :: "Memory \<Rightarrow> bool" where
  "mem_wf m =
     (distinct (map fst (startAddr m)) \<and> distinct (map fst (endAddr m))
      \<and> set (map fst (endAddr m)) = set (map fst (startAddr m))
      \<and> (\<forall>p \<in> set (startAddr m). section_ok m p)
      \<and> disjoint_sections m
      \<and> maxAddr m \<in> set (map snd (endAddr m))
      \<and> (\<forall>e \<in> set (map snd (endAddr m)). e \<le> maxAddr m))"

text \<open>
  Every section named in \<open>startAddr\<close> has an end address and a bytearray: what the
  constructor gives for the bytearrays, and what the loader owes for the end addresses.
\<close>

definition keys_agree :: "Memory \<Rightarrow> bool" where
  "keys_agree m =
     (\<forall>p \<in> set (startAddr m).
        map_of (endAddr m) (fst p) \<noteq> None \<and> map_of (data m) (fst p) \<noteq> None)"

text \<open>An address lies in a declared section; a declared section holds a whole access.\<close>

definition in_section :: "Memory \<Rightarrow> string \<times> int \<Rightarrow> int \<Rightarrow> bool" where
  "in_section m p a = (snd p \<le> a \<and> a < section_end m (fst p))"

definition holds_access :: "Memory \<Rightarrow> string \<times> int \<Rightarrow> int \<Rightarrow> int \<Rightarrow> bool" where
  "holds_access m p addr sz = (snd p \<le> addr \<and> addr + sz \<le> section_end m (fst p))"

section \<open>A small machine\<close>

text \<open>
  Two sections of four bytes, \<open>code\<close> at 0..3 and \<open>data\<close> at 8..11, with a gap between
  them; the simulator as its constructor leaves it, and the same after \<open>reset()\<close>.
\<close>

definition demo_mem :: Memory where
  "demo_mem =
     \<lparr>startAddr = [(''code'', 0), (''data'', 8)],
      endAddr = [(''code'', 4), (''data'', 12)],
      maxAddr = 12,
      data = [(''code'', [0x01, 0x02, 0x03, 0x04]), (''data'', [0x11, 0x22, 0x33, 0xFF])],
      m_history = [],
      breakpoints = (\<lambda>_. 0)\<rparr>"

definition demo_sim :: Simulator where
  "demo_sim = Simulator_init demo_mem"

definition demo_ready :: Simulator where
  "demo_ready = outcome_state (reset demo_sim)"

text \<open>The machine with a value put into R1 by \<open>regs[1].set\<close>.\<close>

definition demo_r1 :: "int \<Rightarrow> Simulator" where
  "demo_r1 v = outcome_state (reg_set 1 v demo_ready)"

text \<open>Instructions used in the examples below.\<close>

definition add_r0_r1_imm1 :: DataMisc where
  "add_r0_r1_imm1 =
     \<lparr>d_rn = 1, d_rd = 0, d_imm = True, d_op2 = (1, (''ROR'', ''imm'', 0)),
      d_opcode = ''ADD'', d_setflags = True\<rparr>"

definition ldrb_r0_r1 :: MemMisc where
  "ldrb_r0_r1 =
     \<lparr>m_base = 1, m_imm = True, m_sign = 1, m_offset = OffsetInt 0, m_pre = True,
      m_mode = ''LDR'', m_byte = True, m_rd = 0, m_writeback = False\<rparr>"

definition ldr_r0_r0_r1 :: MemMisc where
  "ldr_r0_r0_r1 =
     \<lparr>m_base = 0, m_imm = False, m_sign = 1, m_offset = OffsetReg 1 (''LSL'', ''imm'', 0),
      m_pre = True, m_mode = ''LDR'', m_byte = False, m_rd = 0, m_writeback = False\<rparr>"

definition mov_r0_imm5 :: DataMisc where
  "mov_r0_imm5 =
     \<lparr>d_rn = 0, d_rd = 0, d_imm = True, d_op2 = (5, (''ROR'', ''imm'', 0)),
      d_opcode = ''MOV'', d_setflags = False\<rparr>"

text \<open>The machine after \<open>reset()\<close> with the flag N set by \<open>flags['N'].set(True)\<close>.\<close>

definition demo_N_set :: Simulator where
  "demo_N_set = set_one_flag flagN (\<lambda>f s. s\<lparr>flagN := f\<rparr>) (Some True) demo_ready"



definition demo_bkpt :: Simulator where
  "demo_bkpt = Simulator_init (setBreakpoint demo_mem 0 1)"

section \<open>Memory writes (C1)\<close>

lemma Memory_set_never_returns:
  assumes "getRelativeAddr m addr sz = Inr (Some p)"
  shows "raised (Memory_set m addr v sz b) \<noteq> None"
  using assms
  by (cases p) (simp add: Memory_set_def bytearray_setslice_def Let_def split: option.splits)

text \<open>
  C1 (set, then get, gives the little-endian bytes of the value). On the small machine,
  writing 0x12345678 as a word to address 8, a legal address of the section \<open>data\<close>:
  \<open>Memory.set\<close> appends the entry to the write log and then raises TypeError, because it
  assigns the integer itself to the slice of the bytearray. The bytes of the section are
  the old ones, and \<open>Memory.get\<close> returns them, not 78 56 34 12.
\<close>

theorem Memory_set_word_raises:
  "raised (Memory_set demo_mem 8 0x12345678 4 (breakpointHandler demo_sim)) = Some TypeError
   \<and> m_history (fst (outcome_state
        (Memory_set demo_mem 8 0x12345678 4 (breakpointHandler demo_sim))))
       = [(''data'', 0, 4, 0x12345678)]
   \<and> Memory_get (fst (outcome_state
        (Memory_set demo_mem 8 0x12345678 4 (breakpointHandler demo_sim))))
        8 4 False (breakpointHandler demo_sim)
       = Returns (Some [0x11, 0x22, 0x33, 0xFF]) (breakpointHandler demo_sim)
   \<and> le_bytes 4 0x12345678 = [0x78, 0x56, 0x34, 0x12]"
  by code_simp

section \<open>Flags of the data-processing instructions (C3)\<close>

text \<open>
  C3 (Z and N after a data-processing instruction with setflags; the two ADD cases).
  \<open>ADD R0, R1, #1\<close> with setflags, all flags clear before. With R1 = 0xFFFFFFFF the sum
  is 0x100000000, which is not the integer 0: C is set, but Z stays clear, and R0
  receives 0. With R1 = 0x7FFFFFFF the sum is 0x80000000: N is set, and V is written
  False, since the code stores the negation of "the sign of the result differs".
\<close>

theorem ADD_setflags_examples:
  "raised (exec_dataop add_r0_r1_imm1 (demo_r1 0xFFFFFFFF)) = None
   \<and> f_val (flagC (outcome_state (exec_dataop add_r0_r1_imm1 (demo_r1 0xFFFFFFFF))))
   \<and> \<not> f_val (flagZ (outcome_state (exec_dataop add_r0_r1_imm1 (demo_r1 0xFFFFFFFF))))
   \<and> r_val (regs (outcome_state (exec_dataop add_r0_r1_imm1 (demo_r1 0xFFFFFFFF))) ! 0) = 0
   \<and> raised (exec_dataop add_r0_r1_imm1 (demo_r1 0x7FFFFFFF)) = None
   \<and> f_val (flagN (outcome_state (exec_dataop add_r0_r1_imm1 (demo_r1 0x7FFFFFFF))))
   \<and> \<not> f_val (flagV (outcome_state (exec_dataop add_r0_r1_imm1 (demo_r1 0x7FFFFFFF))))"
  by code_simp

text \<open>
  The flags Z and N are only ever raised: a result that is not zero, or whose bit 31 is
  clear, leaves them as they were.
\<close>

lemma set_flags_keeps_Z:
  "f_val (flagZ (set_flags \<lparr>wC = c, wV = v, wZ = None, wN = n\<rparr> s)) = f_val (flagZ s)"
  by (simp add: set_flags_def set_one_flag_def Flag_set_def split: option.splits prod.splits)

section \<open>Immediate offset of the half-word transfers (C4)\<close>

text \<open>
  C4 (offsetImm is the low nibble plus the high nibble taken from bits 11..8). The word
  0xE1D104B0 is \<open>LDRH R0, [R1, #0x40]\<close>: bit 22 set, bits 11..8 = 4, bits 3..0 = 0. The
  formula of the claim gives 0x40; the decoder computes
  \<open>instrInt & (0xF + ((instrInt >> 4) & 0xF0))\<close> = \<open>instrInt & 0x4F\<close> = 0.
\<close>

theorem decode_offsetImm_LDRH:
  "decode (\<lambda>_. Inr ''AL'') 0xE1D104B0 =
     Inr \<lparr>h_condition = ''AL'', h_imm = True, h_pre = True, h_sign = 1, h_byte = False,
          h_signed = False, h_writeback = False, h_mode = ''LDR'', h_basereg = 1, h_rd = 0,
          h_offsetImm = Some 0, h_offsetReg = None\<rparr>
   \<and> (0xE1D104B0 AND 0xF) + (drop_bit 4 0xE1D104B0 AND 0xF0) = (0x40 :: int)"
  by (simp add: decode_def checkMask_def py_bool_def)

section \<open>Arithmetic shift right (C5)\<close>

text \<open>
  C5 (ASR by 0 < n < 32: carry is bit n-1, the result keeps bit 31). The carry is as
  claimed. The result is \<open>(v >> n) | (2**(n+1) << (32-n))\<close>, that is \<open>(v >> n) | 2**33\<close>:
  \<open>firstBit\<close> is computed and not used. For v = 0x80000000, n = 1 the result is
  0x240000000 and not 0xC0000000; for v = 2, whose bit 31 is clear, it is 0x200000001
  and not 1.
\<close>

theorem ASR_result:
  "shiftVal 0x80000000 (''ASR'', ''imm'', 1) s = Returns (0, 0x240000000) s
   \<and> shiftVal 2 (''ASR'', ''imm'', 1) s = Returns (0, 0x200000001) s"
  by (simp add: shiftVal_def shift_core_def py_rshift_def py_lshift_def)

section \<open>Byte loads (C6)\<close>

text \<open>
  C6 (LDR unpacks the 1 or 4 bytes read into Rrd). \<open>LDRB R0, [R1]\<close> with R1 = 8, a legal
  address: \<open>Memory.get\<close> returns the one byte 0x11, and \<open>struct.unpack("<I", m)\<close>, which
  needs four bytes, raises; R0 is not written.
\<close>

theorem LDRB_raises:
  "Memory_get demo_mem 8 1 False (breakpointHandler demo_sim)
     = Returns (Some [0x11]) (breakpointHandler demo_sim)
   \<and> raised (exec_memop ldrb_r0_r1 (demo_r1 8)) = Some StructError
   \<and> r_val (regs (outcome_state (exec_memop ldrb_r0_r1 (demo_r1 8))) ! 0) = 0
   \<and> r_history (regs (outcome_state (exec_memop ldrb_r0_r1 (demo_r1 8))) ! 0) = []"
  by code_simp

text \<open>The word load of the same instruction works as described.\<close>

lemma LDR_word_example:
  "raised (exec_memop (ldrb_r0_r1\<lparr>m_byte := False\<rparr>) (demo_r1 8)) = None
   \<and> r_val (regs (outcome_state (exec_memop (ldrb_r0_r1\<lparr>m_byte := False\<rparr>) (demo_r1 8))) ! 0)
       = 0xFF332211"
  by code_simp

text \<open>
  \<open>LDR R0, [R0, R1]\<close> with R0 = 0 and R1 = 8: the shifter returns carry 0 and value 8,
  the carry is what is added to the base, and the word comes from address 0.
\<close>

lemma LDR_register_offset_example:
  "raised (exec_memop ldr_r0_r0_r1 (demo_r1 8)) = None
   \<and> r_val (regs (outcome_state (exec_memop ldr_r0_r0_r1 (demo_r1 8))) ! 0) = 0x04030201"
  by code_simp

section \<open>Illegal addresses (C8)\<close>

lemma find_section_no_access:
  assumes "\<forall>p \<in> set xs. map_of ends (fst p) \<noteq> None"
    and "\<forall>p \<in> set xs. \<forall>e. map_of ends (fst p) = Some e
           \<longrightarrow> \<not> (snd p \<le> addr \<and> addr + sz \<le> e)"
  shows "find_section xs ends addr sz = Inr None"
  using assms
proof (induction xs)
  case Nil
  then show ?case by simp
next
  case (Cons x xs)
  obtain sec start where x: "x = (sec, start)" by (cases x)
  from Cons.prems(1) x obtain e where e: "map_of ends sec = Some e" by auto
  from Cons.prems(2) x e have "\<not> (start \<le> addr \<and> addr + sz \<le> e)" by auto
  moreover have "find_section xs ends addr sz = Inr None"
    using Cons by simp
  ultimately show ?case using x e by auto
qed

lemma getRelativeAddr_no_access:
  assumes "keys_agree m" and "\<forall>p \<in> set (startAddr m). \<not> holds_access m p addr sz"
  shows "getRelativeAddr m addr sz = Inr None"
proof -
  have "find_section (startAddr m) (endAddr m) addr sz = Inr None"
  proof (rule find_section_no_access)
    show "\<forall>p \<in> set (startAddr m). map_of (endAddr m) (fst p) \<noteq> None"
      using assms(1) by (simp add: keys_agree_def)
    show "\<forall>p \<in> set (startAddr m). \<forall>e. map_of (endAddr m) (fst p) = Some e
            \<longrightarrow> \<not> (snd p \<le> addr \<and> addr + sz \<le> e)"
      using assms(2) by (auto simp: holds_access_def section_end_def)
  qed
  then show ?thesis by (simp add: getRelativeAddr_def)
qed

text \<open>
  C8 (an access that no declared section holds). When no section satisfies
  \<open>start \<le> addr\<close> and \<open>addr + size \<le> end\<close>, \<open>Memory.get\<close> latches the event
  (memory, 8, addr) on the handler and returns None; \<open>Memory.set\<close> latches the same
  event and returns with the memory object as it was: the bytes of every section, the
  write log and the breakpoint masks. The sections are those of a memory whose
  dictionaries have the same keys.
\<close>

theorem illegal_address:
  assumes "keys_agree m" and "\<forall>p \<in> set (startAddr m). \<not> holds_access m p addr sz"
  shows "Memory_get m addr sz execMode b
           = Returns None (throw (BkptInfo ''memory'' 8 (InfoInt addr)) b)
       \<and> Memory_set m addr v sz b
           = Returns () (m, throw (BkptInfo ''memory'' 8 (InfoInt addr)) b)"
  using getRelativeAddr_no_access [OF assms]
  by (simp add: Memory_get_def Memory_set_def)

text \<open>On the small machine: a word at address 2 runs over the end of \<open>code\<close>.\<close>

theorem illegal_address_witness:
  "Memory_get demo_mem 2 4 False (breakpointHandler demo_sim)
     = Returns None (throw (BkptInfo ''memory'' 8 (InfoInt 2)) (breakpointHandler demo_sim))
   \<and> Memory_set demo_mem 2 7 4 (breakpointHandler demo_sim)
     = Returns () (demo_mem,
         throw (BkptInfo ''memory'' 8 (InfoInt 2)) (breakpointHandler demo_sim))"
proof -
  have k: "keys_agree demo_mem" by code_simp
  have h: "\<forall>p \<in> set (startAddr demo_mem). \<not> holds_access demo_mem p 2 4" by code_simp
  show ?thesis using illegal_address [OF k h] by simp
qed

section \<open>The condition gate of execInstr (C2)\<close>

text \<open>
  What the test at the head of \<open>execInstr\<close> computes: for fourteen mnemonics the negation
  of the table of the specification; for the string \<open>PI\<close> the value of N; for any
  other string, \<open>PL\<close> and \<open>NV\<close> among them, False.
\<close>

lemma conditionNotMet_table:
  "fst (conditionNotMet cond s) =
     (if cond \<in> {''EQ'', ''NE'', ''CS'', ''CC'', ''MI'', ''VS'', ''VC'', ''HI'', ''LS'',
                 ''GE'', ''LT'', ''GT'', ''LE'', ''AL''}
      then \<not> arm_condition cond (f_val (flagZ s)) (f_val (flagN s))
               (f_val (flagC s)) (f_val (flagV s))
      else if cond = ''PI'' then f_val (flagN s) else False)"
  by (auto simp: conditionNotMet_def arm_condition_def Flag_bool_def Flag_get_def Flag_eq_def
        Let_def split: prod.splits)

lemma conditionNotMet_NV: "conditionNotMet ''NV'' s = (False, breakpointHandler s)"
  by (simp add: conditionNotMet_def)

lemma demo_ready_flagZ:
  "f_val (flagZ demo_ready) = False \<and> f_breakpoint (flagZ demo_ready) = 0"
  by code_simp

text \<open>
  C2, as the claim states it, fails for NV: the flags of the small machine are all clear,
  the table of the specification says that an NV instruction never executes, and
  \<open>MOV R0, #5\<close> under NV writes 5 into R0.
\<close>

theorem NV_instruction_executes:
  "arm_condition ''NV'' (f_val (flagZ demo_ready)) (f_val (flagN demo_ready))
       (f_val (flagC demo_ready)) (f_val (flagV demo_ready)) = False
   \<and> r_val (regs demo_ready ! 0) = 0
   \<and> raised (execInstr (\<lambda>_. Inr (''NV'', dataop mov_r0_imm5)) demo_ready) = None
   \<and> r_val (regs (outcome_state
        (execInstr (\<lambda>_. Inr (''NV'', dataop mov_r0_imm5)) demo_ready)) ! 0) = 5"
  by code_simp

text \<open>
  C2, amended. For an instruction decoded with one of the conditions EQ, NE, CS, CC, MI,
  VS, VC, HI, LS, GE, LT, GT, LE, AL, and for every state of the flags, \<open>execInstr\<close> runs
  the body of the instruction exactly when the ARM condition holds (EQ iff Z, NE iff not
  Z, CS iff C, CC iff not C, MI iff N, VS iff V, VC iff not V, HI iff C and not Z, LS iff
  not C or Z, GE iff N=V, LT iff N\<noteq>V, GT iff not Z and N=V, LE iff Z or N\<noteq>V, AL
  always), and otherwise returns having changed nothing but the breakpoint handler, on
  which the flags read by the test may have signalled. The executor has no gate for NV:
  an instruction decoded with NV runs its body. Nothing is said here about PL.
\<close>

theorem execInstr_condition_gate:
  assumes "BytecodeToInstrInfos (fetchedInstr s) = Inr (cond, t)"
  shows "(cond \<in> {''EQ'', ''NE'', ''CS'', ''CC'', ''MI'', ''VS'', ''VC'', ''HI'', ''LS'',
                  ''GE'', ''LT'', ''GT'', ''LE'', ''AL''} \<longrightarrow>
           execInstr BytecodeToInstrInfos s =
             (if arm_condition cond (f_val (flagZ s)) (f_val (flagN s))
                   (f_val (flagC s)) (f_val (flagV s))
              then exec_body t (s\<lparr>breakpointHandler := snd (conditionNotMet cond s)\<rparr>)
              else Returns () (s\<lparr>breakpointHandler := snd (conditionNotMet cond s)\<rparr>)))
       \<and> (cond = ''NV'' \<longrightarrow> execInstr BytecodeToInstrInfos s = exec_body t s)"
proof (intro conjI impI)
  assume c: "cond \<in> {''EQ'', ''NE'', ''CS'', ''CC'', ''MI'', ''VS'', ''VC'', ''HI'', ''LS'',
                  ''GE'', ''LT'', ''GT'', ''LE'', ''AL''}"
  have "fst (conditionNotMet cond s) =
          (\<not> arm_condition cond (f_val (flagZ s)) (f_val (flagN s))
               (f_val (flagC s)) (f_val (flagV s)))"
    using c by (simp only: conditionNotMet_table if_True)
  then show "execInstr BytecodeToInstrInfos s =
             (if arm_condition cond (f_val (flagZ s)) (f_val (flagN s))
                   (f_val (flagC s)) (f_val (flagV s))
              then exec_body t (s\<lparr>breakpointHandler := snd (conditionNotMet cond s)\<rparr>)
              else Returns () (s\<lparr>breakpointHandler := snd (conditionNotMet cond s)\<rparr>))"
    using assms by (cases "conditionNotMet cond s") (simp add: execInstr_def)
next
  assume "cond = ''NV''"
  then show "execInstr BytecodeToInstrInfos s = exec_body t s"
    using assms by (simp add: execInstr_def conditionNotMet_NV)
qed

text \<open>On the small machine, Z clear: EQ is skipped, NE and NV run the body.\<close>

theorem execInstr_condition_gate_witness:
  "execInstr (\<lambda>_. Inr (''EQ'', dataop mov_r0_imm5)) demo_ready = Returns () demo_ready
   \<and> execInstr (\<lambda>_. Inr (''NE'', dataop mov_r0_imm5)) demo_ready
       = exec_body (dataop mov_r0_imm5) demo_ready
   \<and> execInstr (\<lambda>_. Inr (''NV'', dataop mov_r0_imm5)) demo_ready
       = exec_body (dataop mov_r0_imm5) demo_ready"
  using
    execInstr_condition_gate
      [of "\<lambda>_. Inr (''EQ'', dataop mov_r0_imm5)" demo_ready "''EQ''" "dataop mov_r0_imm5"]
    execInstr_condition_gate
      [of "\<lambda>_. Inr (''NE'', dataop mov_r0_imm5)" demo_ready "''NE''" "dataop mov_r0_imm5"]
    execInstr_condition_gate
      [of "\<lambda>_. Inr (''NV'', dataop mov_r0_imm5)" demo_ready "''NV''" "dataop mov_r0_imm5"]
  by (simp add: arm_condition_def conditionNotMet_def Flag_bool_def Flag_get_def
        demo_ready_flagZ)

text \<open>
  The mnemonic the test compares with for "plus" is \<open>PI\<close>; an instruction decoded as
  \<open>PL\<close> is never skipped, here with N set.
\<close>

lemma PL_executes_with_N_set:
  "f_val (flagN demo_N_set)
   \<and> r_val (regs demo_N_set ! 0) = 0
   \<and> raised (execInstr (\<lambda>_. Inr (''PL'', dataop mov_r0_imm5)) demo_N_set) = None
   \<and> r_val (regs (outcome_state
        (execInstr (\<lambda>_. Inr (''PL'', dataop mov_r0_imm5)) demo_N_set)) ! 0) = 5"
  by code_simp

section \<open>A cycle whose instruction is skipped (C9)\<close>


lemma reg_get_ok:
  assumes "length (regs s) = 16" and "0 \<le> i" and "i < 16"
  obtains b where "reg_get i s = Returns (r_val (regs s ! nat i)) (s\<lparr>breakpointHandler := b\<rparr>)"
proof -
  have "reg_get i s = Returns (r_val (regs s ! nat i))
          (s\<lparr>breakpointHandler := snd (Register_get (regs s ! nat i) True (breakpointHandler s))\<rparr>)"
    using assms by (simp add: reg_get_def py_index_def Register_get_def)
  then show ?thesis using that by blast
qed

lemma reg_set_ok:
  assumes "length (regs s) = 16" and "0 \<le> i" and "i < 16"
  obtains b where "reg_set i v s = Returns ()
           (s\<lparr>regs := (regs s)[nat i := (regs s ! nat i)
                   \<lparr>r_history := r_history (regs s ! nat i) @ [v AND 0xFFFFFFFF],
                    r_val := v AND 0xFFFFFFFF\<rparr>],
              breakpointHandler := b\<rparr>)"
proof -
  have "reg_set i v s = Returns ()
           (s\<lparr>regs := (regs s)[nat i := (regs s ! nat i)
                   \<lparr>r_history := r_history (regs s ! nat i) @ [v AND 0xFFFFFFFF],
                    r_val := v AND 0xFFFFFFFF\<rparr>],
              breakpointHandler := snd (Register_set (regs s ! nat i) v True (breakpointHandler s))\<rparr>)"
    using assms by (simp add: reg_set_def py_index_def Register_set_def Let_def)
  then show ?thesis using that by blast
qed









section \<open>What reset leaves alone (C10)\<close>

lemma reset_tail_state:
  obtains b f where
    "outcome_state (obind (mem_get pc 4 True s2) (\<lambda>m s3.
        case m of None \<Rightarrow> Raises TypeError s3
        | Some bs \<Rightarrow> Returns () (s3\<lparr>fetchedInstr := Some bs\<rparr>)))
     = s2\<lparr>breakpointHandler := b, fetchedInstr := f\<rparr>"
proof (cases "Memory_get (mem s2) pc 4 True (breakpointHandler s2)")
  case (Returns r b)
  show ?thesis
  proof (cases r)
    case None
    with Returns have "outcome_state (obind (mem_get pc 4 True s2) (\<lambda>m s3.
        case m of None \<Rightarrow> Raises TypeError s3
        | Some bs \<Rightarrow> Returns () (s3\<lparr>fetchedInstr := Some bs\<rparr>)))
     = s2\<lparr>breakpointHandler := b, fetchedInstr := fetchedInstr s2\<rparr>"
      by (simp add: mem_get_def)
    then show ?thesis by (rule that)
  next
    case (Some bs)
    with Returns have "outcome_state (obind (mem_get pc 4 True s2) (\<lambda>m s3.
        case m of None \<Rightarrow> Raises TypeError s3
        | Some bs \<Rightarrow> Returns () (s3\<lparr>fetchedInstr := Some bs\<rparr>)))
     = s2\<lparr>breakpointHandler := b, fetchedInstr := Some bs\<rparr>"
      by (simp add: mem_get_def)
    then show ?thesis by (rule that)
  qed
next
  case (Raises e b)
  then have "outcome_state (obind (mem_get pc 4 True s2) (\<lambda>m s3.
        case m of None \<Rightarrow> Raises TypeError s3
        | Some bs \<Rightarrow> Returns () (s3\<lparr>fetchedInstr := Some bs\<rparr>)))
     = s2\<lparr>breakpointHandler := b, fetchedInstr := fetchedInstr s2\<rparr>"
    by (simp add: mem_get_def)
  then show ?thesis by (rule that)
qed

text \<open>
  C10, as the claim states it, fails: the lifecycle state, \<open>countCycle\<close>, PC and
  \<open>fetchedInstr\<close> are not all that \<open>reset()\<close> modifies. With an execute breakpoint on
  address 0, the fetch of \<open>reset()\<close> latches the event (memory, 1, 0) on the breakpoint
  handler, which was clear before.
\<close>

theorem reset_latches_breakpoint:
  "breakpointTrigged (breakpointHandler demo_bkpt) = False
   \<and> breakpointInfo (breakpointHandler demo_bkpt) = None
   \<and> raised (reset demo_bkpt) = None
   \<and> breakpointTrigged (breakpointHandler (outcome_state (reset demo_bkpt))) = True
   \<and> breakpointInfo (breakpointHandler (outcome_state (reset demo_bkpt)))
       = Some (BkptInfo ''memory'' 1 (InfoInt 0))"
  by code_simp

text \<open>
  C10, amended. \<open>reset()\<close> modifies only the lifecycle state (\<open>ready\<close>), \<open>countCycle\<close>
  (0), PC (R15 set to 0, the write appended to its history), \<open>fetchedInstr\<close> and the
  breakpoint handler, on which the write and the read of R15 and the fetch signal:
  R0..R14, the rest of R15 (breakpoint mask included), the four flags (values and
  breakpoint masks), the memory (bytes of the sections, write log, breakpoint masks),
  the step mode and the step depth are as they were. This holds for the state that
  \<open>reset()\<close> leaves whether it returns or raises (it raises when address 0 is not a
  legal address).
\<close>

theorem reset_frame:
  assumes len: "length (regs s) = 16"
  shows "\<exists>s'. outcome_state (reset s) = s'
      \<and> (\<forall>i<15. regs s' ! i = regs s ! i)
      \<and> regs s' ! 15 = (regs s ! 15)\<lparr>r_history := r_history (regs s ! 15) @ [0], r_val := 0\<rparr>
      \<and> length (regs s') = 16
      \<and> flagZ s' = flagZ s \<and> flagN s' = flagN s \<and> flagC s' = flagC s \<and> flagV s' = flagV s
      \<and> mem s' = mem s
      \<and> state s' = ready \<and> countCycle s' = Some 0
      \<and> stepMode s' = stepMode s \<and> stepCondition s' = stepCondition s"
proof -
  let ?s0 = "s\<lparr>state := ready, countCycle := Some 0\<rparr>"
  let ?R = "(regs s)[15 := (regs s ! 15)\<lparr>r_history := r_history (regs s ! 15) @ [0], r_val := 0\<rparr>]"
  obtain b1 where p: "reg_set 15 0 ?s0 = Returns () (?s0\<lparr>regs := ?R, breakpointHandler := b1\<rparr>)"
    using reg_set_ok [of ?s0 15 0] len by auto
  obtain b2 where g: "reg_get 15 (?s0\<lparr>regs := ?R, breakpointHandler := b1\<rparr>)
      = Returns 0 (?s0\<lparr>regs := ?R, breakpointHandler := b2\<rparr>)"
    using reg_get_ok [of "?s0\<lparr>regs := ?R, breakpointHandler := b1\<rparr>" 15] len by auto
  obtain b f where t: "outcome_state
        (obind (mem_get 0 4 True (?s0\<lparr>regs := ?R, breakpointHandler := b2\<rparr>)) (\<lambda>m s3.
           case m of None \<Rightarrow> Raises TypeError s3
           | Some bs \<Rightarrow> Returns () (s3\<lparr>fetchedInstr := Some bs\<rparr>)))
     = ?s0\<lparr>regs := ?R, breakpointHandler := b2, breakpointHandler := b, fetchedInstr := f\<rparr>"
    by (rule reset_tail_state)
  have "outcome_state (reset s) = ?s0\<lparr>regs := ?R, breakpointHandler := b, fetchedInstr := f\<rparr>"
    using t by (simp add: reset_def p g)
  then show ?thesis using len by simp
qed

text \<open>On the small machine with 7 in R1.\<close>

theorem reset_frame_witness:
  "r_val (regs (outcome_state (reset (demo_r1 7))) ! 1) = 7
   \<and> r_val (regs (outcome_state (reset (demo_r1 7))) ! 15) = 0
   \<and> mem (outcome_state (reset (demo_r1 7))) = mem (demo_r1 7)
   \<and> state (outcome_state (reset (demo_r1 7))) = ready
   \<and> countCycle (outcome_state (reset (demo_r1 7))) = Some 0"
proof -
  have h: "length (regs (demo_r1 7)) = 16" by code_simp
  have r1: "r_val (regs (demo_r1 7) ! 1) = 7" by code_simp
  from reset_frame [OF h] r1 show ?thesis by simp
qed

lemma reset_demo_returns:
  "raised (reset demo_sim) = None \<and> fetchedInstr demo_ready = Some [0x01, 0x02, 0x03, 0x04]"
  by code_simp

section \<open>The serialized image (C7)\<close>

text \<open>
  The loop of \<open>serialize\<close>, started on any prefix \<open>ret_val\<close> and run over sections sorted
  by start address, none of which begins before the end of the prefix unless it is
  empty: the prefix stays, the image ends at the largest end address (or stays as long
  as the prefix), every byte of a section is at its address, and every other address
  past the prefix holds 0.
\<close>

lemma section_ok_parts:
  assumes "section_ok m (sec, start)"
  obtains e d where "map_of (endAddr m) sec = Some e" and "map_of (data m) sec = Some d"
    and "0 \<le> start" and "start \<le> e" and "int (length d) = e - start"
    and "section_end m sec = e" and "section_data m sec = d"
  using assms
  by (auto simp: section_ok_def section_end_def section_data_def split: option.splits)

lemma serialize_loop_image:
  assumes "\<forall>p \<in> set xs. section_ok m p"
    and "sorted (map snd xs)"
    and "\<forall>p \<in> set xs. \<forall>q \<in> set xs. fst p \<noteq> fst q \<longrightarrow>
           section_end m (fst p) \<le> snd q \<or> section_end m (fst q) \<le> snd p"
    and "distinct (map fst xs)"
    and "\<forall>p \<in> set xs. int (length ret) \<le> snd p \<or> snd p = section_end m (fst p)"
  shows "\<exists>img. serialize_loop m xs ret = Inr img
     \<and> length ret \<le> length img
     \<and> take (length ret) img = ret
     \<and> (\<forall>p \<in> set xs. section_end m (fst p) \<le> int (length img))
     \<and> (length img = length ret \<or> (\<exists>p \<in> set xs. int (length img) = section_end m (fst p)))
     \<and> (\<forall>p \<in> set xs. \<forall>a. in_section m p a \<longrightarrow>
            img ! nat a = section_data m (fst p) ! nat (a - snd p))
     \<and> (\<forall>a. int (length ret) \<le> a \<and> a < int (length img)
            \<and> (\<forall>p \<in> set xs. \<not> in_section m p a) \<longrightarrow> img ! nat a = 0)"
  using assms
proof (induction xs arbitrary: ret)
  case Nil
  then show ?case by auto
next
  case (Cons x rest)
  obtain sec start where x: "x = (sec, start)" by (cases x)
  from Cons.prems(1) x have "section_ok m (sec, start)" by simp
  then obtain e d where e: "map_of (endAddr m) sec = Some e"
    and d: "map_of (data m) sec = Some d"
    and s0: "0 \<le> start" and se: "start \<le> e" and ld: "int (length d) = e - start"
    and se_eq: "section_end m sec = e" and sd_eq: "section_data m sec = d"
    by (rule section_ok_parts)
  let ?ret' = "ret @ replicate (nat (start - int (length ret))) 0 @ d"
  have step: "serialize_loop m (x # rest) ret = serialize_loop m rest ?ret'"
    using x e d ld by (simp add: Let_def)
  have ok': "\<forall>p \<in> set rest. section_ok m p" using Cons.prems(1) by simp
  have srt': "sorted (map snd rest)" using Cons.prems(2) by simp
  have dis': "\<forall>p \<in> set rest. \<forall>q \<in> set rest. fst p \<noteq> fst q \<longrightarrow>
           section_end m (fst p) \<le> snd q \<or> section_end m (fst q) \<le> snd p"
    using Cons.prems(3) by simp
  have dst': "distinct (map fst rest)" using Cons.prems(4) by simp
  have after: "\<forall>p \<in> set rest. start \<le> snd p" using Cons.prems(2) x by auto
  have names: "\<forall>p \<in> set rest. fst p \<noteq> sec" using Cons.prems(4) x by auto
  have no_x: "\<And>a. in_section m x a \<longleftrightarrow> start \<le> a \<and> a < e"
    using x se_eq by (simp add: in_section_def)
  show ?case
  proof (cases "int (length ret) \<le> start")
    case True
    have len': "int (length ?ret') = e" using True ld by simp
    have inv': "\<forall>p \<in> set rest. int (length ?ret') \<le> snd p \<or> snd p = section_end m (fst p)"
    proof
      fix p assume p: "p \<in> set rest"
      have "fst x \<noteq> fst p" using names p x by auto
      with Cons.prems(3) p have "section_end m (fst x) \<le> snd p \<or> section_end m (fst p) \<le> snd x"
        by (metis list.set_intros(1) list.set_intros(2))
      moreover have "snd p \<le> section_end m (fst p)"
        using ok' p by (cases p) (auto elim: section_ok_parts)
      moreover have "start \<le> snd p" using after p by simp
      ultimately show "int (length ?ret') \<le> snd p \<or> snd p = section_end m (fst p)"
        using len' x se_eq by auto
    qed
    from Cons.IH [OF ok' srt' dis' dst' inv']
    obtain img where run: "serialize_loop m rest ?ret' = Inr img"
      and le: "length ?ret' \<le> length img"
      and tk: "take (length ?ret') img = ?ret'"
      and ends: "\<forall>p \<in> set rest. section_end m (fst p) \<le> int (length img)"
      and last: "length img = length ?ret' \<or> (\<exists>p \<in> set rest. int (length img) = section_end m (fst p))"
      and secs: "\<forall>p \<in> set rest. \<forall>a. in_section m p a \<longrightarrow>
            img ! nat a = section_data m (fst p) ! nat (a - snd p)"
      and zeros: "\<forall>a. int (length ?ret') \<le> a \<and> a < int (length img)
            \<and> (\<forall>p \<in> set rest. \<not> in_section m p a) \<longrightarrow> img ! nat a = 0"
      by blast
    have pre: "\<And>i. i < length ?ret' \<Longrightarrow> img ! i = ?ret' ! i"
      using tk by (metis nth_take)
    have c1: "length ret \<le> length img" using le by simp
    have c2: "take (length ret) img = ret"
    proof -
      have "take (length ret) img = take (length ret) (take (length ?ret') img)" by simp
      also have "\<dots> = take (length ret) ?ret'" by (simp only: tk)
      also have "\<dots> = ret" by simp
      finally show ?thesis .
    qed
    have c3: "\<forall>p \<in> set (x # rest). section_end m (fst p) \<le> int (length img)"
      using ends le len' x se_eq by auto
    have c4: "length img = length ret \<or> (\<exists>p \<in> set (x # rest). int (length img) = section_end m (fst p))"
      using last len' x se_eq by auto
    have c5: "\<forall>p \<in> set (x # rest). \<forall>a. in_section m p a \<longrightarrow>
            img ! nat a = section_data m (fst p) ! nat (a - snd p)"
    proof (intro ballI allI impI)
      fix p a assume p: "p \<in> set (x # rest)" and a: "in_section m p a"
      show "img ! nat a = section_data m (fst p) ! nat (a - snd p)"
      proof (cases "p = x")
        case True
        with a no_x have r: "start \<le> a" "a < e" by auto
        then have "nat a < length ?ret'" using len' s0 by linarith
        then have "img ! nat a = ?ret' ! nat a" by (rule pre)
        also have "\<dots> = d ! nat (a - start)"
        proof -
          have l: "length (ret @ replicate (nat (start - int (length ret))) 0) = nat start"
            using \<open>int (length ret) \<le> start\<close> by simp
          have "?ret' = (ret @ replicate (nat (start - int (length ret))) 0) @ d" by simp
          then have "?ret' ! nat a = d ! (nat a - nat start)"
            using l r s0 by (simp only: nth_append) auto
          then show ?thesis using r s0 by (simp add: nat_diff_distrib)
        qed
        finally show ?thesis using True x sd_eq by simp
      next
        case False
        with p have "p \<in> set rest" by simp
        with secs a show ?thesis by blast
      qed
    qed
    have c6: "\<forall>a. int (length ret) \<le> a \<and> a < int (length img)
            \<and> (\<forall>p \<in> set (x # rest). \<not> in_section m p a) \<longrightarrow> img ! nat a = 0"
    proof (intro allI impI)
      fix a assume h: "int (length ret) \<le> a \<and> a < int (length img)
            \<and> (\<forall>p \<in> set (x # rest). \<not> in_section m p a)"
      show "img ! nat a = 0"
      proof (cases "a < e")
        case True
        from h no_x have "\<not> (start \<le> a \<and> a < e)" by auto
        with True have lt: "a < start" by simp
        have "nat a < length ?ret'" using True len' h by linarith
        then have "img ! nat a = ?ret' ! nat a" by (rule pre)
        also have "\<dots> = 0"
        proof -
          have n1: "length ret \<le> nat a" using h by linarith
          have n2: "nat a - length ret < nat (start - int (length ret))" using h lt by linarith
          have "?ret' ! nat a = (replicate (nat (start - int (length ret))) 0 @ d) ! (nat a - length ret)"
            using n1 by (simp add: nth_append)
          also have "\<dots> = replicate (nat (start - int (length ret))) 0 ! (nat a - length ret)"
            using n2 by (simp add: nth_append)
          also have "\<dots> = 0" using n2 by simp
          finally show ?thesis .
        qed
        finally show ?thesis .
      next
        case False
        with h zeros len' show ?thesis by auto
      qed
    qed
    show ?thesis using step run c1 c2 c3 c4 c5 c6 by simp
  next
    case False
    with Cons.prems(5) x se_eq have empty: "start = e" by auto
    with ld have dnil: "d = []" by simp
    have same: "?ret' = ret" using False dnil by simp
    have inv': "\<forall>p \<in> set rest. int (length ret) \<le> snd p \<or> snd p = section_end m (fst p)"
      using Cons.prems(5) by simp
    from Cons.IH [OF ok' srt' dis' dst' inv']
    obtain img where run: "serialize_loop m rest ret = Inr img"
      and le: "length ret \<le> length img"
      and tk: "take (length ret) img = ret"
      and ends: "\<forall>p \<in> set rest. section_end m (fst p) \<le> int (length img)"
      and last: "length img = length ret \<or> (\<exists>p \<in> set rest. int (length img) = section_end m (fst p))"
      and secs: "\<forall>p \<in> set rest. \<forall>a. in_section m p a \<longrightarrow>
            img ! nat a = section_data m (fst p) ! nat (a - snd p)"
      and zeros: "\<forall>a. int (length ret) \<le> a \<and> a < int (length img)
            \<and> (\<forall>p \<in> set rest. \<not> in_section m p a) \<longrightarrow> img ! nat a = 0"
      by blast
    have nox: "\<And>a. \<not> in_section m x a" using no_x empty by simp
    have c3: "\<forall>p \<in> set (x # rest). section_end m (fst p) \<le> int (length img)"
      using ends le False empty x se_eq by auto
    have c4: "length img = length ret \<or> (\<exists>p \<in> set (x # rest). int (length img) = section_end m (fst p))"
      using last by auto
    have c5: "\<forall>p \<in> set (x # rest). \<forall>a. in_section m p a \<longrightarrow>
            img ! nat a = section_data m (fst p) ! nat (a - snd p)"
      using secs nox by auto
    have c6: "\<forall>a. int (length ret) \<le> a \<and> a < int (length img)
            \<and> (\<forall>p \<in> set (x # rest). \<not> in_section m p a) \<longrightarrow> img ! nat a = 0"
      using zeros by auto
    show ?thesis using step same run le tk c3 c4 c5 c6 by simp
  qed
qed


lemma section_end_in_ends:
  assumes "section_ok m p"
  shows "section_end m (fst p) \<in> set (map snd (endAddr m))"
proof -
  obtain sec start where p: "p = (sec, start)" by (cases p)
  with assms obtain e where "map_of (endAddr m) sec = Some e" and "section_end m sec = e"
    by (auto elim: section_ok_parts)
  then have "(sec, e) \<in> set (endAddr m)" and "section_end m (fst p) = e"
    using p by (auto dest: map_of_SomeD)
  then show ?thesis by force
qed

lemma ends_are_section_ends:
  assumes "distinct (map fst (endAddr m))"
    and "set (map fst (endAddr m)) = set (map fst (startAddr m))"
    and "e \<in> set (map snd (endAddr m))"
  shows "\<exists>p \<in> set (startAddr m). section_end m (fst p) = e"
proof -
  from assms(3) obtain k where k: "(k, e) \<in> set (endAddr m)" by auto
  then have "map_of (endAddr m) k = Some e" using assms(1) by simp
  then have se: "section_end m k = e" by (simp add: section_end_def)
  from k have "k \<in> set (map fst (endAddr m))" by force
  then have "k \<in> set (map fst (startAddr m))" using assms(2) by simp
  then obtain p where "p \<in> set (startAddr m)" and "fst p = k" by auto
  with se show ?thesis by auto
qed

text \<open>
  C7 (the image returned by \<open>serialize()\<close>). For every memory that satisfies the
  invariants of the data model (\<open>mem_wf\<close>: same section names in the three dictionaries,
  non-negative starts, a buffer of length \<open>end - start\<close> per section, sections that
  do not overlap, \<open>maxAddr\<close> the largest end address), \<open>serialize()\<close> returns an image
  whose length is \<open>maxAddr\<close>; the byte at an address inside a declared section is that
  section's byte at the offset \<open>address - start\<close>; the byte at an address below
  \<open>maxAddr\<close> outside all declared sections is 0.
\<close>

theorem serialize_image:
  assumes "mem_wf m"
  shows "\<exists>img. serialize m = Inr img
      \<and> int (length img) = maxAddr m
      \<and> (\<forall>p \<in> set (startAddr m). \<forall>a. in_section m p a \<longrightarrow>
             img ! nat a = section_data m (fst p) ! nat (a - snd p))
      \<and> (\<forall>a. 0 \<le> a \<and> a < maxAddr m \<and> (\<forall>p \<in> set (startAddr m). \<not> in_section m p a)
             \<longrightarrow> img ! nat a = 0)"
proof -
  let ?xs = "sort_key snd (startAddr m)"
  from assms have d1: "distinct (map fst (startAddr m))"
    and d2: "distinct (map fst (endAddr m))"
    and keys: "set (map fst (endAddr m)) = set (map fst (startAddr m))"
    and ok: "\<forall>p \<in> set (startAddr m). section_ok m p"
    and dis: "disjoint_sections m"
    and mx1: "maxAddr m \<in> set (map snd (endAddr m))"
    and mx2: "\<forall>e \<in> set (map snd (endAddr m)). e \<le> maxAddr m"
    by (simp_all add: mem_wf_def)
  have st: "set ?xs = set (startAddr m)" by simp
  have a1: "\<forall>p \<in> set ?xs. section_ok m p" using ok by simp
  have a2: "sorted (map snd ?xs)" by (rule sorted_sort_key)
  have a3: "\<forall>p \<in> set ?xs. \<forall>q \<in> set ?xs. fst p \<noteq> fst q \<longrightarrow>
           section_end m (fst p) \<le> snd q \<or> section_end m (fst q) \<le> snd p"
    using dis by (simp add: disjoint_sections_def)
  have a4: "distinct (map fst ?xs)"
    using d1 by (simp add: distinct_map)
  have a5: "\<forall>p \<in> set ?xs. int (length ([] :: byte list)) \<le> snd p \<or> snd p = section_end m (fst p)"
  proof
    fix p assume "p \<in> set ?xs"
    then have "section_ok m p" using a1 by blast
    then have "0 \<le> snd p" by (cases p) (auto elim: section_ok_parts)
    then show "int (length ([] :: byte list)) \<le> snd p \<or> snd p = section_end m (fst p)" by simp
  qed
  from serialize_loop_image [OF a1 a2 a3 a4 a5]
  obtain img where run: "serialize_loop m ?xs [] = Inr img"
    and ends: "\<forall>p \<in> set ?xs. section_end m (fst p) \<le> int (length img)"
    and last: "length img = length ([] :: byte list) \<or> (\<exists>p \<in> set ?xs. int (length img) = section_end m (fst p))"
    and secs: "\<forall>p \<in> set ?xs. \<forall>a. in_section m p a \<longrightarrow>
            img ! nat a = section_data m (fst p) ! nat (a - snd p)"
    and zeros: "\<forall>a. int (length ([] :: byte list)) \<le> a \<and> a < int (length img)
            \<and> (\<forall>p \<in> set ?xs. \<not> in_section m p a) \<longrightarrow> img ! nat a = 0"
    by blast
  obtain p0 where p0: "p0 \<in> set (startAddr m)" and p0e: "section_end m (fst p0) = maxAddr m"
    using ends_are_section_ends [OF d2 keys mx1] by blast
  have lo: "maxAddr m \<le> int (length img)" using ends p0 p0e st by auto
  have hi: "int (length img) \<le> maxAddr m"
  proof (cases "length img = 0")
    case True
    have "section_ok m p0" using ok p0 by blast
    then have "0 \<le> section_end m (fst p0)" by (cases p0) (auto elim: section_ok_parts)
    with True p0e show ?thesis by simp
  next
    case False
    with last obtain p where p: "p \<in> set (startAddr m)" and "int (length img) = section_end m (fst p)"
      using st by auto
    moreover have "section_end m (fst p) \<in> set (map snd (endAddr m))"
      using ok p by (blast intro: section_end_in_ends)
    ultimately show ?thesis using mx2 by auto
  qed
  have len: "int (length img) = maxAddr m" using lo hi by simp
  have "serialize m = Inr img" using run by (simp add: serialize_def)
  moreover have "\<forall>p \<in> set (startAddr m). \<forall>a. in_section m p a \<longrightarrow>
             img ! nat a = section_data m (fst p) ! nat (a - snd p)"
    using secs st by simp
  moreover have "\<forall>a. 0 \<le> a \<and> a < maxAddr m \<and> (\<forall>p \<in> set (startAddr m). \<not> in_section m p a)
             \<longrightarrow> img ! nat a = 0"
    using zeros st len by simp
  ultimately show ?thesis using len by blast
qed

text \<open>On the small machine: four bytes, four zero bytes of padding, four bytes.\<close>

theorem serialize_image_witness:
  "serialize demo_mem = Inr [0x01, 0x02, 0x03, 0x04, 0, 0, 0, 0, 0x11, 0x22, 0x33, 0xFF]
   \<and> maxAddr demo_mem = 12"
proof -
  have wf: "mem_wf demo_mem" by code_simp
  have run: "serialize demo_mem = Inr [0x01, 0x02, 0x03, 0x04, 0, 0, 0, 0, 0x11, 0x22, 0x33, 0xFF]"
    by code_simp
  from serialize_image [OF wf] run show ?thesis by (auto simp: demo_mem_def)
qed

text \<open>The memory of the small machine is what the constructor builds.\<close>

lemma demo_mem_constructed:
  "Memory_init [(''code'', 0), (''data'', 8)] [(''code'', 4), (''data'', 12)]
     [(''code'', [0x01, 0x02, 0x03, 0x04]), (''data'', [0x11, 0x22, 0x33, 0xFF])]
   = Inr demo_mem"
  by (simp add: Memory_init_def demo_mem_def)

end
